theory Spec2Isabelle
  imports Main "HOL-Library.Word" "HOL-Library.Multiset"
begin

section \<open>The state-sync reactor (statesync/reactor.go)\<close>

text \<open>
  A shallow embedding of the state-sync reactor: the channel-based dispatch loop
  \<open>Start\<close>, the callback-based \<open>Receive\<close>, \<open>AddPeer\<close> and \<open>RemovePeer\<close> of the
  deprecated stack, \<open>recentSnapshots\<close> and \<open>Sync\<close>.  Everything the reactor does to
  the outside (log lines, envelopes put on a channel, messages handed to the switch)
  is recorded, in program order, in a list of actions.
\<close>

subsection \<open>Data\<close>

type_synonym bytes = "8 word list"
type_synonym PeerID = string
type_synonym error = string

text \<open>\<open>abci.Snapshot\<close> and the package's \<open>snapshot\<close> struct carry the same five fields.\<close>

record snapshot =
  Height :: "64 word"
  Format :: "32 word"
  Chunks :: "32 word"
  Hash :: bytes
  Metadata :: bytes

text \<open>The \<open>chunk\<close> struct. A nil \<open>Chunk\<close> slice is \<open>None\<close>.\<close>

record chunk =
  chunk_Height :: "64 word"
  chunk_Format :: "32 word"
  chunk_Index :: "32 word"
  chunk_Chunk :: "bytes option"
  chunk_Sender :: PeerID

text \<open>
  The messages of package \<open>ssproto\<close>, with their fields in declaration order
  (\<open>SnapshotsResponse\<close>: Height, Format, Chunks, Hash, Metadata; \<open>ChunkRequest\<close>: Height,
  Format, Index; \<open>ChunkResponse\<close>: Height, Format, Index, Chunk, Missing).  Any other
  value behind the \<open>proto.Message\<close> interface is \<open>OtherMessage\<close>, named by its type.
\<close>

datatype Message =
    SnapshotsRequest
  | SnapshotsResponse "64 word" "32 word" "32 word" bytes bytes
  | ChunkRequest "64 word" "32 word" "32 word"
  | ChunkResponse "64 word" "32 word" "32 word" "bytes option" bool
  | OtherMessage string

text \<open>\<open>p2p.Envelope\<close>; an unset peer id is the empty string.\<close>

record Envelope =
  From :: PeerID
  To :: PeerID
  Broadcast :: bool
  Message :: Message

definition SnapshotChannel :: "8 word" where
  "SnapshotChannel = 0x60"

definition ChunkChannel :: "8 word" where
  "ChunkChannel = 0x61"

definition recentSnapshots_const :: nat where
  "recentSnapshots_const = 10"

text \<open>The two channels of the reactor struct, \<open>r.snapshotCh\<close> and \<open>r.chunkCh\<close>.\<close>

datatype Channel = snapshotCh | chunkCh

text \<open>
  What the reactor does to its surroundings: a line of the logger (the message only),
  an envelope put on the \<open>Out\<close> queue of a channel, \<open>Peer.Send\<close> and
  \<open>Switch.StopPeerForError\<close> of the deprecated stack, and the call of the syncer's
  \<open>SyncAny\<close> with the discovery time.
\<close>

datatype action =
    LogDebug string
  | LogError string
  | Out Channel Envelope
  | Send PeerID "8 word" bytes
  | StopPeerForError PeerID error
  | SyncAny_called int

subsection \<open>The read-write mutex\<close>

text \<open>
  \<open>tmsync.RWMutex\<close>: the number of read locks held and whether the write lock is held.
  An acquisition that cannot be granted in the current state does not return; that is
  the value \<open>None\<close>.  Every \<open>RUnlock\<close> of the reactor is paired with an earlier
  \<open>RLock\<close> of the same call, so it finds a reader to release.
\<close>

record RWMutex =
  readers :: nat
  writer :: bool

definition RLock :: "RWMutex \<Rightarrow> RWMutex option" where
  "RLock m = (if writer m then None else Some (m\<lparr>readers := Suc (readers m)\<rparr>))"

definition RUnlock :: "RWMutex \<Rightarrow> RWMutex" where
  "RUnlock m = m\<lparr>readers := readers m - 1\<rparr>"

definition Lock :: "RWMutex \<Rightarrow> RWMutex option" where
  "Lock m = (if writer m then None else if 0 < readers m then None
             else Some (m\<lparr>writer := True\<rparr>))"

definition Unlock :: "RWMutex \<Rightarrow> RWMutex" where
  "Unlock m = m\<lparr>writer := False\<rparr>"

subsection \<open>Collaborators\<close>

text \<open>
  \<open>proxy.AppConnSnapshot\<close>: the answers of the application to \<open>ListSnapshotsSync\<close> and
  to \<open>LoadSnapshotChunkSync\<close> (height, format, chunk index); \<open>Inl\<close> is the error
  return.  The loaded chunk is \<open>None\<close> when the response's \<open>Chunk\<close> is nil.
\<close>

record AppConnSnapshot =
  ListSnapshotsSync :: "error + snapshot list"
  LoadSnapshotChunkSync :: "64 word \<Rightarrow> 32 word \<Rightarrow> 32 word \<Rightarrow> error + bytes option"

type_synonym AppConnQuery = string
type_synonym StateProvider = string
type_synonym sm_State = string
type_synonym Commit = "string option"

text \<open>
  Functions the reactor calls whose code is outside reactor.go, taken as parameters:
  \<open>sort.Slice\<close> of the standard library (given the less function and the slice, the
  sorted slice), the syncer (syncer.go: \<open>newSyncer\<close>, \<open>AddSnapshot\<close>, \<open>AddChunk\<close>,
  \<open>AddPeer\<close>, \<open>RemovePeer\<close>, \<open>SyncAny\<close>, each returning its results and the session
  as it has become), and the codec (messages.go: \<open>decodeMsg\<close>, \<open>validateMsg\<close>,
  \<open>mustEncodeMsg\<close>).  The type \<open>'sy\<close> is the syncer session.
\<close>

record 'sy externals =
  sort_Slice :: "(snapshot \<Rightarrow> snapshot \<Rightarrow> bool) \<Rightarrow> snapshot list \<Rightarrow> snapshot list"
  newSyncer :: "AppConnSnapshot \<Rightarrow> AppConnQuery \<Rightarrow> StateProvider \<Rightarrow> string \<Rightarrow> 'sy"
  syncer_AddSnapshot :: "PeerID \<Rightarrow> snapshot \<Rightarrow> 'sy \<Rightarrow> (bool \<times> error option) \<times> 'sy"
  syncer_AddChunk :: "chunk \<Rightarrow> 'sy \<Rightarrow> (bool \<times> error option) \<times> 'sy"
  syncer_AddPeer :: "PeerID \<Rightarrow> 'sy \<Rightarrow> 'sy"
  syncer_RemovePeer :: "PeerID \<Rightarrow> 'sy \<Rightarrow> 'sy"
  syncer_SyncAny :: "int \<Rightarrow> 'sy \<Rightarrow> (sm_State \<times> Commit \<times> error option) \<times> 'sy"
  decodeMsg :: "bytes \<Rightarrow> error + Message"
  validateMsg :: "Message \<Rightarrow> error option"
  mustEncodeMsg :: "Message \<Rightarrow> bytes"

subsection \<open>The reactor\<close>

text \<open>
  The \<open>Reactor\<close> struct.  \<open>IsRunning\<close> and \<open>Switch\<close> come from the embedded
  \<open>p2p.BaseReactor\<close>; of the switch only its current peers matter here.  The context,
  the two channels and the peer-update queue are the sources of the events of \<open>Start\<close>
  and the sinks of its actions.
\<close>

record 'sy Reactor =
  conn :: AppConnSnapshot
  connQuery :: AppConnQuery
  tempDir :: string
  mtx :: RWMutex
  syncer :: "'sy option"
  IsRunning :: bool
  Switch :: "PeerID list"

text \<open>
  Modelled from the spec: \<open>p2p.Switch.Broadcast\<close> (package p2p, not part of the
  sources at hand) hands the message, on the given channel, to every peer the switch
  currently knows.
\<close>

definition Switch_Broadcast :: "PeerID list \<Rightarrow> 8 word \<Rightarrow> bytes \<Rightarrow> action list" where
  "Switch_Broadcast peers chID msgBytes = map (\<lambda>p. Send p chID msgBytes) peers"

subsection \<open>recentSnapshots\<close>

text \<open>The less function handed to \<open>sort.Slice\<close>.\<close>

definition snapshot_less :: "snapshot \<Rightarrow> snapshot \<Rightarrow> bool" where
  "snapshot_less a b =
     (if Height b < Height a then True
      else if Height a = Height b \<and> Format b < Format a then True
      else False)"

text \<open>\<open>make([]*snapshot, 0, n)\<close>: an empty slice; \<open>n\<close> is only its capacity.\<close>

definition make_snapshots :: "32 word \<Rightarrow> snapshot list" where
  "make_snapshots n = []"

text \<open>The loop of \<open>recentSnapshots\<close> over the sorted slice, from index \<open>i\<close> on.\<close>

fun collect :: "nat \<Rightarrow> snapshot list \<Rightarrow> snapshot list \<Rightarrow> snapshot list" where
  "collect i [] snapshots = snapshots"
| "collect i (s # ss) snapshots =
     (if recentSnapshots_const \<le> i then snapshots
      else collect (Suc i) ss
             (snapshots @ [\<lparr>Height = Height s, Format = Format s, Chunks = Chunks s,
                            Hash = Hash s, Metadata = Metadata s\<rparr>]))"

definition recentSnapshots ::
  "'sy externals \<Rightarrow> 'sy Reactor \<Rightarrow> 32 word \<Rightarrow> error + snapshot list" where
  "recentSnapshots X r n =
     (case ListSnapshotsSync (conn r) of
        Inl err \<Rightarrow> Inl err
      | Inr resp_Snapshots \<Rightarrow>
          Inr (collect 0 (sort_Slice X snapshot_less resp_Snapshots) (make_snapshots n)))"

text \<open>
  The order the specification names: descending by (Height, Format), Height first and
  Format to break ties.
\<close>

definition desc_Height_Format :: "snapshot \<Rightarrow> snapshot \<Rightarrow> bool" where
  "desc_Height_Format a b \<longleftrightarrow>
     Height b < Height a \<or> (Height a = Height b \<and> Format b \<le> Format a)"

text \<open>
  What \<open>sort.Slice\<close> promises for one call: the result is a rearrangement of the slice
  and no element is less than an element before it.
\<close>

definition sorts ::
  "(('a \<Rightarrow> 'a \<Rightarrow> bool) \<Rightarrow> 'a list \<Rightarrow> 'a list) \<Rightarrow> ('a \<Rightarrow> 'a \<Rightarrow> bool) \<Rightarrow> 'a list \<Rightarrow> bool" where
  "sorts srt lt xs \<longleftrightarrow>
     mset (srt lt xs) = mset xs \<and> sorted_wrt (\<lambda>a b. \<not> lt b a) (srt lt xs)"

text \<open>An insertion sort, one function that keeps that promise.\<close>

fun insert_by :: "('a \<Rightarrow> 'a \<Rightarrow> bool) \<Rightarrow> 'a \<Rightarrow> 'a list \<Rightarrow> 'a list" where
  "insert_by lt x [] = [x]"
| "insert_by lt x (y # ys) =
     (if lt y x then y # insert_by lt x ys else x # y # ys)"

fun insertion_sort :: "('a \<Rightarrow> 'a \<Rightarrow> bool) \<Rightarrow> 'a list \<Rightarrow> 'a list" where
  "insertion_sort lt [] = []"
| "insertion_sort lt (x # xs) = insert_by lt x (insertion_sort lt xs)"

subsection \<open>Start: the dispatch loop\<close>

text \<open>
  One outcome of the \<open>select\<close>: an envelope from \<open>r.snapshotCh.In\<close>, an envelope from
  \<open>r.chunkCh.In\<close>, or a value from \<open>r.peerUpdates\<close>.  The fourth case, \<open>ctx.Done()\<close>,
  ends the loop and is part of \<open>Start\<close> below.
\<close>

datatype event =
    snapshotCh_In Envelope
  | chunkCh_In Envelope
  | peerUpdates_In string

text \<open>The loop over the snapshots to advertise on the snapshot channel.\<close>

primrec advertise :: "PeerID \<Rightarrow> snapshot list \<Rightarrow> action list" where
  "advertise peer [] = []"
| "advertise peer (s # ss) =
     LogDebug ''advertising snapshot''
     # Out snapshotCh \<lparr>From = [], To = peer, Broadcast = False,
          Message = SnapshotsResponse (Height s) (Format s) (Chunks s) (Hash s) (Metadata s)\<rparr>
     # advertise peer ss"

text \<open>
  One iteration of the loop.  \<open>defer r.mtx.RUnlock()\<close> stands inside the \<open>for\<close> of
  \<open>Start\<close>: a deferred call runs when the function that deferred it returns, so each
  one is only counted here (\<open>deferred\<close>) and runs when \<open>Start\<close> returns.  The result is
  the new count, the reactor and the actions of the iteration; \<open>None\<close> when the
  iteration does not get past \<open>RLock\<close>.
\<close>

definition Start_snapshotCh ::
  "'sy externals \<Rightarrow> Envelope \<Rightarrow> nat \<Rightarrow> 'sy Reactor \<Rightarrow> (nat \<times> 'sy Reactor \<times> action list) option" where
  "Start_snapshotCh X envelope deferred r =
     (case Message envelope of
        SnapshotsRequest \<Rightarrow>
          (case recentSnapshots X r (of_nat recentSnapshots_const) of
             Inl err \<Rightarrow> Some (deferred, r, [LogError ''failed to fetch snapshots''])
           | Inr snapshots \<Rightarrow> Some (deferred, r, advertise (From envelope) snapshots))
      | SnapshotsResponse h f c hash meta \<Rightarrow>
          (case RLock (mtx r) of
             None \<Rightarrow> None
           | Some m \<Rightarrow>
               (case syncer r of
                  None \<Rightarrow>
                    Some (Suc deferred, r\<lparr>mtx := m\<rparr>,
                          [LogDebug ''received unexpected snapshot; no state sync in progress''])
                | Some sy \<Rightarrow>
                    (case syncer_AddSnapshot X (From envelope)
                            \<lparr>Height = h, Format = f, Chunks = c, Hash = hash, Metadata = meta\<rparr> sy of
                       ((added, err), sy') \<Rightarrow>
                         Some (Suc deferred, r\<lparr>mtx := m, syncer := Some sy'\<rparr>,
                               LogDebug ''received snapshot''
                               # (case err of
                                    None \<Rightarrow> []
                                  | Some e \<Rightarrow> [LogError ''failed to add snapshot''])))))
      | _ \<Rightarrow> Some (deferred, r, [LogError ''received unknown message: %T'']))"

definition Start_chunkCh ::
  "'sy externals \<Rightarrow> Envelope \<Rightarrow> nat \<Rightarrow> 'sy Reactor \<Rightarrow> (nat \<times> 'sy Reactor \<times> action list) option" where
  "Start_chunkCh X envelope deferred r =
     (case Message envelope of
        ChunkRequest h f i \<Rightarrow>
          (case LoadSnapshotChunkSync (conn r) h f i of
             Inl err \<Rightarrow>
               Some (deferred, r,
                     [LogDebug ''received chunk request'', LogError ''failed to load chunk''])
           | Inr resp_Chunk \<Rightarrow>
               Some (deferred, r,
                     [LogDebug ''received chunk request'', LogDebug ''sending chunk'',
                      Out chunkCh \<lparr>From = [], To = From envelope, Broadcast = False,
                        Message = ChunkResponse h f i resp_Chunk (resp_Chunk = None)\<rparr>]))
      | ChunkResponse h f i ch missing \<Rightarrow>
          (case RLock (mtx r) of
             None \<Rightarrow> None
           | Some m \<Rightarrow>
               (case syncer r of
                  None \<Rightarrow>
                    Some (Suc deferred, r\<lparr>mtx := m\<rparr>,
                          [LogDebug ''received unexpected chunk, no state sync in progress''])
                | Some sy \<Rightarrow>
                    (case syncer_AddChunk X
                            \<lparr>chunk_Height = h, chunk_Format = f, chunk_Index = i,
                             chunk_Chunk = ch, chunk_Sender = From envelope\<rparr> sy of
                       ((added, err), sy') \<Rightarrow>
                         Some (Suc deferred, r\<lparr>mtx := m, syncer := Some sy'\<rparr>,
                               LogDebug ''received chunk; adding to sync''
                               # (case err of
                                    None \<Rightarrow> []
                                  | Some e \<Rightarrow> [LogError ''failed to add chunk''])))))
      | _ \<Rightarrow> Some (deferred, r, [LogError ''received unknown message: %T'']))"

fun Start_step ::
  "'sy externals \<Rightarrow> event \<Rightarrow> nat \<Rightarrow> 'sy Reactor \<Rightarrow> (nat \<times> 'sy Reactor \<times> action list) option" where
  "Start_step X (snapshotCh_In envelope) deferred r = Start_snapshotCh X envelope deferred r"
| "Start_step X (chunkCh_In envelope) deferred r = Start_chunkCh X envelope deferred r"
| "Start_step X (peerUpdates_In peerUpdate) deferred r = Some (deferred, r, [LogDebug ''peer update''])"

text \<open>The iterations for a sequence of events, the actions collected in order.\<close>

fun Start_loop ::
  "'sy externals \<Rightarrow> event list \<Rightarrow> nat \<Rightarrow> 'sy Reactor \<Rightarrow> action list
     \<Rightarrow> (nat \<times> 'sy Reactor \<times> action list) option" where
  "Start_loop X [] deferred r trace = Some (deferred, r, trace)"
| "Start_loop X (ev # evs) deferred r trace =
     (case Start_step X ev deferred r of
        None \<Rightarrow> None
      | Some (deferred', r', acts) \<Rightarrow> Start_loop X evs deferred' r' (trace @ acts))"

text \<open>
  \<open>Start\<close> for a run in which the \<open>select\<close> yields the given events and then
  \<open>ctx.Done()\<close>: the function returns nil and the deferred \<open>RUnlock\<close> calls run.
\<close>

definition Start ::
  "'sy externals \<Rightarrow> event list \<Rightarrow> 'sy Reactor \<Rightarrow> (error option \<times> 'sy Reactor \<times> action list) option" where
  "Start X evs r =
     (case Start_loop X evs 0 r [] of
        None \<Rightarrow> None
      | Some (deferred, r', acts) \<Rightarrow>
          Some (None, r'\<lparr>mtx := (RUnlock ^^ deferred) (mtx r')\<rparr>, acts))"

subsection \<open>The callbacks of the deprecated stack\<close>

definition AddPeer :: "'sy externals \<Rightarrow> PeerID \<Rightarrow> 'sy Reactor \<Rightarrow> 'sy Reactor option" where
  "AddPeer X peer r =
     (case RLock (mtx r) of
        None \<Rightarrow> None
      | Some m \<Rightarrow>
          (case syncer r of
             None \<Rightarrow> Some (r\<lparr>mtx := RUnlock m\<rparr>)
           | Some sy \<Rightarrow> Some (r\<lparr>mtx := RUnlock m, syncer := Some (syncer_AddPeer X peer sy)\<rparr>)))"

definition RemovePeer :: "'sy externals \<Rightarrow> PeerID \<Rightarrow> 'sy Reactor \<Rightarrow> 'sy Reactor option" where
  "RemovePeer X peer r =
     (case RLock (mtx r) of
        None \<Rightarrow> None
      | Some m \<Rightarrow>
          (case syncer r of
             None \<Rightarrow> Some (r\<lparr>mtx := RUnlock m\<rparr>)
           | Some sy \<Rightarrow> Some (r\<lparr>mtx := RUnlock m, syncer := Some (syncer_RemovePeer X peer sy)\<rparr>)))"

primrec advertise_Send :: "'sy externals \<Rightarrow> PeerID \<Rightarrow> 8 word \<Rightarrow> snapshot list \<Rightarrow> action list" where
  "advertise_Send X src chID [] = []"
| "advertise_Send X src chID (s # ss) =
     LogDebug ''Advertising snapshot''
     # Send src chID
         (mustEncodeMsg X
            (SnapshotsResponse (Height s) (Format s) (Chunks s) (Hash s) (Metadata s)))
     # advertise_Send X src chID ss"

text \<open>
  \<open>Receive\<close>.  Here every \<open>return\<close> after \<open>defer r.mtx.RUnlock()\<close> leaves the function,
  so the read lock is released before the result is handed back.
\<close>

definition Receive_SnapshotChannel ::
  "'sy externals \<Rightarrow> 8 word \<Rightarrow> PeerID \<Rightarrow> Message \<Rightarrow> 'sy Reactor \<Rightarrow> ('sy Reactor \<times> action list) option" where
  "Receive_SnapshotChannel X chID src msg r =
     (case msg of
        SnapshotsRequest \<Rightarrow>
          (case recentSnapshots X r (of_nat recentSnapshots_const) of
             Inl err \<Rightarrow> Some (r, [LogError ''Failed to fetch snapshots''])
           | Inr snapshots \<Rightarrow> Some (r, advertise_Send X src chID snapshots))
      | SnapshotsResponse h f c hash meta \<Rightarrow>
          (case RLock (mtx r) of
             None \<Rightarrow> None
           | Some m \<Rightarrow>
               (case syncer r of
                  None \<Rightarrow>
                    Some (r\<lparr>mtx := RUnlock m\<rparr>,
                          [LogDebug ''Received unexpected snapshot, no state sync in progress''])
                | Some sy \<Rightarrow>
                    (case syncer_AddSnapshot X src
                            \<lparr>Height = h, Format = f, Chunks = c, Hash = hash, Metadata = meta\<rparr> sy of
                       ((added, err), sy') \<Rightarrow>
                         Some (r\<lparr>mtx := RUnlock m, syncer := Some sy'\<rparr>,
                               LogDebug ''Received snapshot''
                               # (case err of
                                    None \<Rightarrow> []
                                  | Some e \<Rightarrow> [LogError ''Failed to add snapshot''])))))
      | _ \<Rightarrow> Some (r, [LogError ''Received unknown message %T'']))"

definition Receive_ChunkChannel ::
  "'sy externals \<Rightarrow> PeerID \<Rightarrow> Message \<Rightarrow> 'sy Reactor \<Rightarrow> ('sy Reactor \<times> action list) option" where
  "Receive_ChunkChannel X src msg r =
     (case msg of
        ChunkRequest h f i \<Rightarrow>
          (case LoadSnapshotChunkSync (conn r) h f i of
             Inl err \<Rightarrow>
               Some (r, [LogDebug ''Received chunk request'', LogError ''Failed to load chunk''])
           | Inr resp_Chunk \<Rightarrow>
               Some (r, [LogDebug ''Received chunk request'', LogDebug ''Sending chunk'',
                         Send src ChunkChannel
                           (mustEncodeMsg X (ChunkResponse h f i resp_Chunk (resp_Chunk = None)))]))
      | ChunkResponse h f i ch missing \<Rightarrow>
          (case RLock (mtx r) of
             None \<Rightarrow> None
           | Some m \<Rightarrow>
               (case syncer r of
                  None \<Rightarrow>
                    Some (r\<lparr>mtx := RUnlock m\<rparr>,
                          [LogDebug ''Received unexpected chunk, no state sync in progress''])
                | Some sy \<Rightarrow>
                    (case syncer_AddChunk X
                            \<lparr>chunk_Height = h, chunk_Format = f, chunk_Index = i,
                             chunk_Chunk = ch, chunk_Sender = src\<rparr> sy of
                       ((added, err), sy') \<Rightarrow>
                         Some (r\<lparr>mtx := RUnlock m, syncer := Some sy'\<rparr>,
                               LogDebug ''Received chunk, adding to sync''
                               # (case err of
                                    None \<Rightarrow> []
                                  | Some e \<Rightarrow> [LogError ''Failed to add chunk''])))))
      | _ \<Rightarrow> Some (r, [LogError ''Received unknown message %T'']))"

definition Receive ::
  "'sy externals \<Rightarrow> 8 word \<Rightarrow> PeerID \<Rightarrow> bytes \<Rightarrow> 'sy Reactor \<Rightarrow> ('sy Reactor \<times> action list) option" where
  "Receive X chID src msgBytes r =
     (if \<not> IsRunning r then Some (r, [])
      else
        (case decodeMsg X msgBytes of
           Inl err \<Rightarrow> Some (r, [LogError ''Error decoding message'', StopPeerForError src err])
         | Inr msg \<Rightarrow>
             (case validateMsg X msg of
                Some err \<Rightarrow> Some (r, [LogError ''Invalid message'', StopPeerForError src err])
              | None \<Rightarrow>
                  if chID = SnapshotChannel then Receive_SnapshotChannel X chID src msg r
                  else if chID = ChunkChannel then Receive_ChunkChannel X src msg r
                  else Some (r, [LogError ''Received message on invalid channel %x'']))))"

subsection \<open>Sync\<close>

text \<open>
  \<open>Sync\<close> returns the triple of state, commit and error, the reactor as it is left,
  and the actions in program order.  \<open>None\<close>: the call waits at a \<open>Lock\<close> that is
  not granted.
\<close>

definition Sync ::
  "'sy externals \<Rightarrow> StateProvider \<Rightarrow> int \<Rightarrow> 'sy Reactor
     \<Rightarrow> ((sm_State \<times> Commit \<times> error option) \<times> 'sy Reactor \<times> action list) option" where
  "Sync X stateProvider discoveryTime r =
     (case Lock (mtx r) of
        None \<Rightarrow> None
      | Some m \<Rightarrow>
          if syncer r \<noteq> None
          then Some (([], None, Some ''a state sync is already in progress''),
                     r\<lparr>mtx := Unlock m\<rparr>, [])
          else
            (let sy = newSyncer X (conn r) (connQuery r) stateProvider (tempDir r);
                 r1 = r\<lparr>syncer := Some sy, mtx := Unlock m\<rparr>;
                 acts = LogDebug ''Requesting snapshots from known peers''
                        # Switch_Broadcast (Switch r1) SnapshotChannel
                            (mustEncodeMsg X SnapshotsRequest)
                        @ [SyncAny_called discoveryTime]
             in case syncer_SyncAny X discoveryTime sy of
                  (result, sy') \<Rightarrow>
                    (case Lock (mtx r1) of
                       None \<Rightarrow> None
                     | Some m' \<Rightarrow>
                         Some (result, r1\<lparr>syncer := None, mtx := Unlock m'\<rparr>, acts))))"

subsection \<open>Reading a list of actions\<close>

text \<open>Every message that leaves the node: envelopes on either queue and \<open>Peer.Send\<close>.\<close>

fun network_sends :: "action list \<Rightarrow> action list" where
  "network_sends [] = []"
| "network_sends (Out ch e # acts) = Out ch e # network_sends acts"
| "network_sends (Send p chID b # acts) = Send p chID b # network_sends acts"
| "network_sends (a # acts) = network_sends acts"

text \<open>The peers reported for an error, in order.\<close>

fun flagged_peers :: "action list \<Rightarrow> PeerID list" where
  "flagged_peers [] = []"
| "flagged_peers (StopPeerForError p e # acts) = p # flagged_peers acts"
| "flagged_peers (a # acts) = flagged_peers acts"

text \<open>The actions of one iteration; none when the iteration does not get past a lock.\<close>

definition acts_of :: "(nat \<times> 'sy Reactor \<times> action list) option \<Rightarrow> action list" where
  "acts_of res = (case res of None \<Rightarrow> [] | Some (deferred, r, acts) \<Rightarrow> acts)"

text \<open>
  The message types each \<open>switch\<close> of \<open>Start\<close> names: requests and responses for
  snapshots on the snapshot channel, for chunks on the chunk channel.  Everything else
  goes to the \<open>default\<close> branch.
\<close>

fun snapshotCh_recognized :: "Message \<Rightarrow> bool" where
  "snapshotCh_recognized SnapshotsRequest = True"
| "snapshotCh_recognized (SnapshotsResponse h f c hash meta) = True"
| "snapshotCh_recognized m = False"

fun chunkCh_recognized :: "Message \<Rightarrow> bool" where
  "chunkCh_recognized (ChunkRequest h f i) = True"
| "chunkCh_recognized (ChunkResponse h f i ch missing) = True"
| "chunkCh_recognized m = False"

subsection \<open>A concrete node\<close>

text \<open>
  An application with three snapshots (and one with twelve), a two-message codec, a
  syncer session that records the peers that fed it, a reactor with two peers and no
  session.  The theorems below are exercised on them.
\<close>

definition example_snapshots :: "snapshot list" where
  "example_snapshots =
     [\<lparr>Height = 5, Format = 1, Chunks = 3, Hash = [1], Metadata = []\<rparr>,
      \<lparr>Height = 7, Format = 1, Chunks = 2, Hash = [2], Metadata = []\<rparr>,
      \<lparr>Height = 7, Format = 2, Chunks = 4, Hash = [3], Metadata = [9]\<rparr>]"

definition many_snapshots :: "snapshot list" where
  "many_snapshots =
     map (\<lambda>k. \<lparr>Height = of_nat (k div 2), Format = of_nat (k mod 2), Chunks = 1,
                Hash = [of_nat k], Metadata = []\<rparr>) [0..<12]"

definition example_conn :: AppConnSnapshot where
  "example_conn =
     \<lparr>ListSnapshotsSync = Inr example_snapshots,
      LoadSnapshotChunkSync =
        (\<lambda>h f i. if h = 7 \<and> f = 2 \<and> i < 4 then Inr (Some [ucast i])
                 else if h = 7 then Inr None
                 else Inl ''snapshot store unavailable'')\<rparr>"

definition example_decodeMsg :: "bytes \<Rightarrow> error + Message" where
  "example_decodeMsg b =
     (if b = [1] then Inr SnapshotsRequest
      else if b = [3] then Inr (ChunkRequest 5 1 0)
      else Inl ''unknown message type'')"

definition example_mustEncodeMsg :: "Message \<Rightarrow> bytes" where
  "example_mustEncodeMsg m =
     (case m of
        SnapshotsRequest \<Rightarrow> [1]
      | SnapshotsResponse h f c hash meta \<Rightarrow> [2]
      | ChunkRequest h f i \<Rightarrow> [3]
      | ChunkResponse h f i ch missing \<Rightarrow> [4]
      | OtherMessage t \<Rightarrow> [0])"

definition example_X :: "PeerID list externals" where
  "example_X =
     \<lparr>sort_Slice = insertion_sort,
      newSyncer = (\<lambda>c q sp dir. []),
      syncer_AddSnapshot = (\<lambda>p s sy. ((True, None), sy @ [p])),
      syncer_AddChunk = (\<lambda>c sy. ((True, None), sy @ [chunk_Sender c])),
      syncer_AddPeer = (\<lambda>p sy. sy @ [p]),
      syncer_RemovePeer = (\<lambda>p sy. removeAll p sy),
      syncer_SyncAny = (\<lambda>d sy. (([], None, Some ''no suitable snapshots found''), sy)),
      decodeMsg = example_decodeMsg,
      validateMsg = (\<lambda>m. None),
      mustEncodeMsg = example_mustEncodeMsg\<rparr>"

definition example_reactor :: "PeerID list Reactor" where
  "example_reactor =
     \<lparr>conn = example_conn, connQuery = ''query'', tempDir = ''/tmp/statesync'',
      mtx = \<lparr>readers = 0, writer = False\<rparr>, syncer = None, IsRunning = True,
      Switch = [''peerA'', ''peerB'']\<rparr>"

section \<open>Properties\<close>

subsection \<open>Sorting and truncation\<close>

lemma collect_take: "collect i xs acc = acc @ take (recentSnapshots_const - i) xs"
proof (induction xs arbitrary: i acc)
  case Nil
  then show ?case by simp
next
  case (Cons s ss)
  show ?case
  proof (cases "recentSnapshots_const \<le> i")
    case True
    then show ?thesis by simp
  next
    case False
    then have "recentSnapshots_const - i = Suc (recentSnapshots_const - Suc i)" by simp
    with False Cons.IH [of "Suc i"] show ?thesis by simp
  qed
qed

lemma recentSnapshots_Inr:
  "ListSnapshotsSync (conn r) = Inr xs \<Longrightarrow>
   recentSnapshots X r n = Inr (take 10 (sort_Slice X snapshot_less xs))"
  by (simp add: recentSnapshots_def collect_take make_snapshots_def recentSnapshots_const_def)

lemma recentSnapshots_Inl:
  "ListSnapshotsSync (conn r) = Inl e \<Longrightarrow> recentSnapshots X r n = Inl e"
  by (simp add: recentSnapshots_def)

lemma not_snapshot_less_iff: "\<not> snapshot_less b a \<longleftrightarrow> desc_Height_Format a b"
  by (auto simp: snapshot_less_def desc_Height_Format_def)

lemma sorts_desc:
  "sorts srt snapshot_less xs \<Longrightarrow> sorted_wrt desc_Height_Format (srt snapshot_less xs)"
  by (simp add: sorts_def not_snapshot_less_iff)

text \<open>
  The less function of the source is a strict weak order, which is what \<open>sort.Slice\<close>
  asks of it.
\<close>

lemma snapshot_less_irrefl: "\<not> snapshot_less a a"
  by (simp add: snapshot_less_def)

lemma snapshot_less_trans: "snapshot_less a b \<Longrightarrow> snapshot_less b c \<Longrightarrow> snapshot_less a c"
  by (auto simp: snapshot_less_def split: if_splits)

lemma snapshot_less_incomparable_trans:
  "\<not> snapshot_less a b \<Longrightarrow> \<not> snapshot_less b a \<Longrightarrow>
   \<not> snapshot_less b c \<Longrightarrow> \<not> snapshot_less c b \<Longrightarrow>
   \<not> snapshot_less a c \<and> \<not> snapshot_less c a"
  by (auto simp: snapshot_less_def split: if_splits)

text \<open>The insertion sort keeps the promise of \<open>sort.Slice\<close> on every slice.\<close>

lemma mset_insert_by: "mset (insert_by lt x ys) = add_mset x (mset ys)"
  by (induction ys) auto

lemma mset_insertion_sort: "mset (insertion_sort lt xs) = mset xs"
  by (induction xs) (auto simp: mset_insert_by)

lemma set_insert_by: "set (insert_by lt x ys) = insert x (set ys)"
  by (induction ys) auto

lemma desc_trans: "desc_Height_Format a b \<Longrightarrow> desc_Height_Format b c \<Longrightarrow> desc_Height_Format a c"
  by (auto simp: desc_Height_Format_def)

lemma sorted_insert_by:
  "sorted_wrt desc_Height_Format ys \<Longrightarrow> sorted_wrt desc_Height_Format (insert_by snapshot_less x ys)"
proof (induction ys)
  case Nil
  then show ?case by simp
next
  case (Cons y ys)
  show ?case
  proof (cases "snapshot_less y x")
    case True
    then have "desc_Height_Format y x"
      by (auto simp: snapshot_less_def desc_Height_Format_def split: if_splits)
    with True Cons show ?thesis by (auto simp: set_insert_by)
  next
    case False
    then have xy: "desc_Height_Format x y" by (simp add: not_snapshot_less_iff)
    with False Cons.prems show ?thesis by (auto intro: desc_trans)
  qed
qed

lemma sorted_insertion_sort: "sorted_wrt desc_Height_Format (insertion_sort snapshot_less xs)"
  by (induction xs) (auto simp: sorted_insert_by)

lemma insertion_sort_sorts: "sorts insertion_sort snapshot_less xs"
  by (simp add: sorts_def mset_insertion_sort not_snapshot_less_iff sorted_insertion_sort)

lemma network_sends_advertise:
  "network_sends (advertise peer ss) =
     map (\<lambda>s. Out snapshotCh \<lparr>From = [], To = peer, Broadcast = False,
               Message = SnapshotsResponse (Height s) (Format s) (Chunks s) (Hash s) (Metadata s)\<rparr>) ss"
  by (induction ss) auto

subsection \<open>The mutex\<close>

lemma mtx_unlock_lock: "Lock m = Some m' \<Longrightarrow> Unlock m' = m"
  by (auto simp: Lock_def Unlock_def split: if_splits)

lemma mtx_runlock_rlock: "RLock m = Some m' \<Longrightarrow> RUnlock m' = m"
  by (auto simp: RLock_def RUnlock_def split: if_splits)

text \<open>
  The read locks held grow by exactly the number of \<open>RUnlock\<close> calls an iteration of
  \<open>Start\<close> defers, and they are all released when \<open>Start\<close> returns.
\<close>

lemma Start_step_readers:
  assumes "Start_step X ev deferred r = Some (deferred', r', acts)"
  shows "readers (mtx r') = readers (mtx r) + (deferred' - deferred) \<and> deferred \<le> deferred'"
proof (cases ev)
  case (snapshotCh_In envelope)
  with assms show ?thesis
    by (cases "Message envelope")
       (auto simp: Start_snapshotCh_def RLock_def split: sum.splits option.splits if_splits prod.splits)
next
  case (chunkCh_In envelope)
  with assms show ?thesis
    by (cases "Message envelope")
       (auto simp: Start_chunkCh_def RLock_def split: sum.splits option.splits if_splits prod.splits)
next
  case (peerUpdates_In u)
  with assms show ?thesis by auto
qed

lemma Start_loop_readers:
  "Start_loop X evs deferred r trace = Some (deferred', r', acts) \<Longrightarrow>
   readers (mtx r') = readers (mtx r) + (deferred' - deferred) \<and> deferred \<le> deferred'"
proof (induction evs arbitrary: deferred r trace)
  case Nil
  then show ?case by simp
next
  case (Cons ev evs)
  from Cons.prems obtain d1 r1 a1 where
    step: "Start_step X ev deferred r = Some (d1, r1, a1)"
    and rest: "Start_loop X evs d1 r1 (trace @ a1) = Some (deferred', r', acts)"
    by (auto split: option.splits)
  from Start_step_readers [OF step] Cons.IH [OF rest] show ?case by auto
qed

lemma Start_returns_releases:
  assumes "Start X evs r = Some (err, r', acts)"
  shows "err = None \<and> readers (mtx r') = readers (mtx r)"
proof -
  from assms obtain d r1 where
    loop: "Start_loop X evs 0 r [] = Some (d, r1, acts)"
    and r': "r' = r1\<lparr>mtx := (RUnlock ^^ d) (mtx r1)\<rparr>" and err: "err = None"
    by (auto simp: Start_def split: option.splits)
  have rel: "readers ((RUnlock ^^ k) m) = readers m - k" for k m
    by (induction k) (simp_all add: RUnlock_def)
  from Start_loop_readers [OF loop] have "readers (mtx r1) = readers (mtx r) + d" by simp
  with r' err rel show ?thesis by simp
qed

subsection \<open>Responses and the session\<close>

text \<open>
  Once the read lock is granted, a response is handed to the session together with its
  sender when there is a session, and only logged when there is none; the session
  slot and both queues are otherwise untouched.  In \<open>Start\<close> the read lock stays with
  the reactor; in \<open>Receive\<close> it is given back and the reactor is as before.
\<close>

lemma Start_SnapshotsResponse_no_session:
  assumes "Message envelope = SnapshotsResponse h f c hash meta"
    and "syncer r = None" and "RLock (mtx r) = Some m"
  shows "Start_step X (snapshotCh_In envelope) deferred r
           = Some (Suc deferred, r\<lparr>mtx := m\<rparr>,
                   [LogDebug ''received unexpected snapshot; no state sync in progress''])"
  using assms by (simp add: Start_snapshotCh_def)

lemma Start_ChunkResponse_no_session:
  assumes "Message envelope = ChunkResponse h f i ch missing"
    and "syncer r = None" and "RLock (mtx r) = Some m"
  shows "Start_step X (chunkCh_In envelope) deferred r
           = Some (Suc deferred, r\<lparr>mtx := m\<rparr>,
                   [LogDebug ''received unexpected chunk, no state sync in progress''])"
  using assms by (simp add: Start_chunkCh_def)

lemma Start_SnapshotsResponse_forwarded:
  assumes "Message envelope = SnapshotsResponse h f c hash meta"
    and "syncer r = Some sy" and "RLock (mtx r) = Some m"
    and "syncer_AddSnapshot X (From envelope)
           \<lparr>Height = h, Format = f, Chunks = c, Hash = hash, Metadata = meta\<rparr> sy
         = ((added, err), sy')"
  shows "Start_step X (snapshotCh_In envelope) deferred r
           = Some (Suc deferred, r\<lparr>mtx := m, syncer := Some sy'\<rparr>,
                   LogDebug ''received snapshot''
                   # (case err of None \<Rightarrow> [] | Some e \<Rightarrow> [LogError ''failed to add snapshot'']))"
  using assms by (simp add: Start_snapshotCh_def)

lemma Start_ChunkResponse_forwarded:
  assumes "Message envelope = ChunkResponse h f i ch missing"
    and "syncer r = Some sy" and "RLock (mtx r) = Some m"
    and "syncer_AddChunk X
           \<lparr>chunk_Height = h, chunk_Format = f, chunk_Index = i, chunk_Chunk = ch,
            chunk_Sender = From envelope\<rparr> sy
         = ((added, err), sy')"
  shows "Start_step X (chunkCh_In envelope) deferred r
           = Some (Suc deferred, r\<lparr>mtx := m, syncer := Some sy'\<rparr>,
                   LogDebug ''received chunk; adding to sync''
                   # (case err of None \<Rightarrow> [] | Some e \<Rightarrow> [LogError ''failed to add chunk'']))"
  using assms by (simp add: Start_chunkCh_def)

lemma Receive_SnapshotsResponse_no_session:
  assumes "syncer r = None" and "RLock (mtx r) = Some m"
  shows "Receive_SnapshotChannel X chID src (SnapshotsResponse h f c hash meta) r
           = Some (r, [LogDebug ''Received unexpected snapshot, no state sync in progress''])"
  using assms by (simp add: Receive_SnapshotChannel_def mtx_runlock_rlock)

lemma Receive_ChunkResponse_no_session:
  assumes "syncer r = None" and "RLock (mtx r) = Some m"
  shows "Receive_ChunkChannel X src (ChunkResponse h f i ch missing) r
           = Some (r, [LogDebug ''Received unexpected chunk, no state sync in progress''])"
  using assms by (simp add: Receive_ChunkChannel_def mtx_runlock_rlock)

text \<open>
  A decoded, valid message that the channel's \<open>switch\<close> in \<open>Receive\<close> does not name
  is only logged there as well.
\<close>

lemma Receive_unknown_only_logged:
  assumes "IsRunning r" and "decodeMsg X msgBytes = Inr msg" and "validateMsg X msg = None"
  shows "\<not> snapshotCh_recognized msg \<Longrightarrow>
           Receive X SnapshotChannel src msgBytes r
             = Some (r, [LogError ''Received unknown message %T''])"
    and "\<not> chunkCh_recognized msg \<Longrightarrow>
           Receive X ChunkChannel src msgBytes r
             = Some (r, [LogError ''Received unknown message %T''])"
  using assms
  by (cases msg;
      simp add: Receive_def Receive_SnapshotChannel_def Receive_ChunkChannel_def
        SnapshotChannel_def ChunkChannel_def)+

lemma AddPeer_session:
  assumes "RLock (mtx r) = Some m"
  shows "AddPeer X peer r = Some (r\<lparr>syncer := map_option (syncer_AddPeer X peer) (syncer r)\<rparr>)"
  using assms by (cases "syncer r") (simp_all add: AddPeer_def mtx_runlock_rlock)

lemma RemovePeer_session:
  assumes "RLock (mtx r) = Some m"
  shows "RemovePeer X peer r = Some (r\<lparr>syncer := map_option (syncer_RemovePeer X peer) (syncer r)\<rparr>)"
  using assms by (cases "syncer r") (simp_all add: RemovePeer_def mtx_runlock_rlock)

subsection \<open>Sync with a session\<close>

text \<open>
  With a session active, \<open>Sync\<close> does nothing until its write lock is granted; once it
  is, the call returns the error, the reactor is exactly as before and no action is
  taken.  While a read lock is held the call does not return.
\<close>

lemma Sync_session_active:
  assumes "syncer r \<noteq> None"
  shows "Sync X stateProvider discoveryTime r =
           (case Lock (mtx r) of
              None \<Rightarrow> None
            | Some m \<Rightarrow> Some (([], None, Some ''a state sync is already in progress''), r, []))"
  using assms by (auto simp: Sync_def mtx_unlock_lock split: option.splits)

lemma Sync_waits_while_read_locked:
  "0 < readers (mtx r) \<Longrightarrow> Sync X stateProvider discoveryTime r = None"
  by (simp add: Sync_def Lock_def)

subsection \<open>Claims\<close>

text \<open>
  C1 (with a session active, \<open>Sync\<close> returns the error "a state sync is already in
  progress" immediately and changes nothing), evaluated at the state the dispatch loop
  leaves after it has forwarded one SnapshotsResponse to the active session: the read
  lock taken for that message is still held, and \<open>Sync\<close> called there waits at its
  \<open>Lock\<close> and returns no error.
\<close>

theorem Sync_waits_after_forwarded_response:
  "Start_step example_X
     (snapshotCh_In \<lparr>From = ''peerA'', To = [], Broadcast = False,
                     Message = SnapshotsResponse 7 2 4 [3] [9]\<rparr>)
     0 (example_reactor\<lparr>syncer := Some []\<rparr>)
     = Some (1, example_reactor\<lparr>mtx := \<lparr>readers = 1, writer = False\<rparr>,
                                syncer := Some [''peerA'']\<rparr>,
             [LogDebug ''received snapshot''])
   \<and> syncer (example_reactor\<lparr>mtx := \<lparr>readers = 1, writer = False\<rparr>,
                               syncer := Some [''peerA'']\<rparr>) \<noteq> None
   \<and> Sync example_X ''provider'' 15000000000
       (example_reactor\<lparr>mtx := \<lparr>readers = 1, writer = False\<rparr>,
                        syncer := Some [''peerA'']\<rparr>) = None"
  by (simp add: Start_snapshotCh_def RLock_def Sync_def Lock_def
      example_reactor_def example_X_def)

text \<open>
  C2.  For a SnapshotsRequest envelope and a list of snapshots returned by the
  application that \<open>sort.Slice\<close> sorts, the iteration leaves the reactor as it is and
  the messages it sends are exactly one SnapshotsResponse for each of the first ten
  entries of the sorted list, in that order, each addressed to the sender of the
  request and carrying Height, Format, Chunks, Hash and Metadata of its snapshot; the
  sorted list is a rearrangement of the application's list in descending (Height,
  Format) order.
\<close>

theorem SnapshotsRequest_answered:
  assumes "Message envelope = SnapshotsRequest"
    and "ListSnapshotsSync (conn r) = Inr xs"
    and "sorts (sort_Slice X) snapshot_less xs"
  shows "Start_step X (snapshotCh_In envelope) deferred r
           = Some (deferred, r, advertise (From envelope) (take 10 (sort_Slice X snapshot_less xs)))
       \<and> network_sends (advertise (From envelope) (take 10 (sort_Slice X snapshot_less xs)))
           = map (\<lambda>s. Out snapshotCh
                        \<lparr>From = [], To = From envelope, Broadcast = False,
                         Message = SnapshotsResponse (Height s) (Format s) (Chunks s)
                                     (Hash s) (Metadata s)\<rparr>)
               (take 10 (sort_Slice X snapshot_less xs))
       \<and> mset (sort_Slice X snapshot_less xs) = mset xs
       \<and> sorted_wrt desc_Height_Format (sort_Slice X snapshot_less xs)"
proof -
  have "recentSnapshots X r (of_nat recentSnapshots_const)
          = Inr (take 10 (sort_Slice X snapshot_less xs))"
    using assms(2) by (rule recentSnapshots_Inr)
  then have "Start_step X (snapshotCh_In envelope) deferred r
           = Some (deferred, r, advertise (From envelope) (take 10 (sort_Slice X snapshot_less xs)))"
    using assms(1) by (simp add: Start_snapshotCh_def)
  moreover have "mset (sort_Slice X snapshot_less xs) = mset xs"
    using assms(3) by (simp add: sorts_def)
  moreover have "sorted_wrt desc_Height_Format (sort_Slice X snapshot_less xs)"
    using assms(3) by (rule sorts_desc)
  ultimately show ?thesis
    by (simp add: network_sends_advertise)
qed

text \<open>C2 on the concrete node: three snapshots, advertised highest first.\<close>

theorem SnapshotsRequest_answered_witness:
  "Message \<lparr>From = ''peerA'', To = [], Broadcast = False, Message = SnapshotsRequest\<rparr> = SnapshotsRequest
   \<and> ListSnapshotsSync (conn example_reactor) = Inr example_snapshots
   \<and> sorts (sort_Slice example_X) snapshot_less example_snapshots
   \<and> Start_step example_X
        (snapshotCh_In \<lparr>From = ''peerA'', To = [], Broadcast = False, Message = SnapshotsRequest\<rparr>)
        0 example_reactor
       = Some (0, example_reactor,
           [LogDebug ''advertising snapshot'',
            Out snapshotCh \<lparr>From = [], To = ''peerA'', Broadcast = False,
                             Message = SnapshotsResponse 7 2 4 [3] [9]\<rparr>,
            LogDebug ''advertising snapshot'',
            Out snapshotCh \<lparr>From = [], To = ''peerA'', Broadcast = False,
                             Message = SnapshotsResponse 7 1 2 [2] []\<rparr>,
            LogDebug ''advertising snapshot'',
            Out snapshotCh \<lparr>From = [], To = ''peerA'', Broadcast = False,
                             Message = SnapshotsResponse 5 1 3 [1] []\<rparr>])"
proof -
  have msg: "Message \<lparr>From = ''peerA'', To = [], Broadcast = False, Message = SnapshotsRequest\<rparr>
               = SnapshotsRequest"
    by simp
  have app: "ListSnapshotsSync (conn example_reactor) = Inr example_snapshots"
    by (simp add: example_reactor_def example_conn_def)
  have srt: "sorts (sort_Slice example_X) snapshot_less example_snapshots"
    by (simp add: example_X_def insertion_sort_sorts)
  have val: "take 10 (sort_Slice example_X snapshot_less example_snapshots)
               = [\<lparr>Height = 7, Format = 2, Chunks = 4, Hash = [3], Metadata = [9]\<rparr>,
                  \<lparr>Height = 7, Format = 1, Chunks = 2, Hash = [2], Metadata = []\<rparr>,
                  \<lparr>Height = 5, Format = 1, Chunks = 3, Hash = [1], Metadata = []\<rparr>]"
    by (simp add: example_X_def example_snapshots_def snapshot_less_def)
  show ?thesis
    using SnapshotsRequest_answered [OF msg app srt, of 0] msg app srt
    by (simp add: val)
qed

text \<open>
  C3.  For a ChunkRequest that the application loads without error, the iteration
  puts one ChunkResponse for the requesting peer on the chunk channel, with the
  Height, Format and Index of the request, the loaded chunk, and Missing true exactly
  when the loaded chunk is nil; it logs no error and leaves the reactor as it is.
\<close>

theorem ChunkRequest_answered:
  assumes "Message envelope = ChunkRequest h f i"
    and "LoadSnapshotChunkSync (conn r) h f i = Inr resp_Chunk"
  shows "Start_step X (chunkCh_In envelope) deferred r
           = Some (deferred, r,
               [LogDebug ''received chunk request'', LogDebug ''sending chunk'',
                Out chunkCh \<lparr>From = [], To = From envelope, Broadcast = False,
                  Message = ChunkResponse h f i resp_Chunk (resp_Chunk = None)\<rparr>])"
  using assms by (simp add: Start_chunkCh_def)

text \<open>C3 on the concrete node, for a chunk the application does not have.\<close>

theorem ChunkRequest_answered_witness:
  "Message \<lparr>From = ''peerB'', To = [], Broadcast = False, Message = ChunkRequest 7 1 0\<rparr>
     = ChunkRequest 7 1 0
   \<and> LoadSnapshotChunkSync (conn example_reactor) 7 1 0 = Inr None
   \<and> Start_step example_X
        (chunkCh_In \<lparr>From = ''peerB'', To = [], Broadcast = False, Message = ChunkRequest 7 1 0\<rparr>)
        0 example_reactor
       = Some (0, example_reactor,
           [LogDebug ''received chunk request'', LogDebug ''sending chunk'',
            Out chunkCh \<lparr>From = [], To = ''peerB'', Broadcast = False,
              Message = ChunkResponse 7 1 0 None True\<rparr>])"
proof -
  have msg: "Message \<lparr>From = ''peerB'', To = [], Broadcast = False, Message = ChunkRequest 7 1 0\<rparr>
     = ChunkRequest 7 1 0"
    by simp
  have app: "LoadSnapshotChunkSync (conn example_reactor) 7 1 0 = Inr None"
    by (simp add: example_reactor_def example_conn_def)
  show ?thesis
    using ChunkRequest_answered [OF msg app, of example_X 0] msg app by simp
qed

text \<open>
  C6.  A call of \<open>Sync\<close> with no session active, once its write lock is granted,
  creates the session, logs, hands one SnapshotsRequest on the snapshot channel to each
  peer the switch knows, and only then calls \<open>SyncAny\<close>; nothing else is sent.  It
  returns what \<open>SyncAny\<close> returns and empties the session slot again.
\<close>

theorem Sync_broadcasts_request:
  assumes "syncer r = None"
  shows "Sync X stateProvider discoveryTime r =
           (case Lock (mtx r) of
              None \<Rightarrow> None
            | Some m \<Rightarrow>
                Some (fst (syncer_SyncAny X discoveryTime
                             (newSyncer X (conn r) (connQuery r) stateProvider (tempDir r))),
                      r,
                      LogDebug ''Requesting snapshots from known peers''
                      # map (\<lambda>p. Send p SnapshotChannel (mustEncodeMsg X SnapshotsRequest)) (Switch r)
                      @ [SyncAny_called discoveryTime]))"
proof (cases "Lock (mtx r)")
  case None
  then show ?thesis by (simp add: Sync_def)
next
  case (Some m)
  have unlocked: "Unlock m = mtx r" using Some by (rule mtx_unlock_lock)
  have again: "Lock (mtx r) = Some m" by (rule Some)
  have same: "r\<lparr>syncer := None\<rparr> = r" using assms by simp
  show ?thesis
    using assms Some
    by (simp add: Sync_def Let_def unlocked again same Switch_Broadcast_def split: prod.splits)
qed

text \<open>C6 on the concrete node with its two peers.\<close>

theorem Sync_broadcasts_request_witness:
  "syncer example_reactor = None
   \<and> Sync example_X ''provider'' 15000000000 example_reactor
       = Some (([], None, Some ''no suitable snapshots found''), example_reactor,
               [LogDebug ''Requesting snapshots from known peers'',
                Send ''peerA'' 0x60 [1], Send ''peerB'' 0x60 [1],
                SyncAny_called 15000000000])"
proof -
  have idle: "syncer example_reactor = None"
    by (simp add: example_reactor_def)
  have lck: "Lock (mtx example_reactor) = Some \<lparr>readers = 0, writer = True\<rparr>"
    by (simp add: example_reactor_def Lock_def)
  have peers: "Switch example_reactor = [''peerA'', ''peerB'']"
    by (simp add: example_reactor_def)
  show ?thesis
    using Sync_broadcasts_request [OF idle, of example_X "''provider''" 15000000000] idle
    by (simp add: lck peers example_X_def example_mustEncodeMsg_def SnapshotChannel_def)
qed

text \<open>
  C9.  Whatever the argument \<open>n\<close>, \<open>recentSnapshots\<close> returns the first ten entries of
  the sorted list of the application's snapshots: at most ten snapshots, the same for
  every \<open>n\<close>, in descending (Height, Format) order.
\<close>

theorem recentSnapshots_top_ten:
  assumes "ListSnapshotsSync (conn r) = Inr xs"
    and "sorts (sort_Slice X) snapshot_less xs"
  shows "recentSnapshots X r n = Inr (take 10 (sort_Slice X snapshot_less xs))
       \<and> recentSnapshots X r n' = recentSnapshots X r n
       \<and> length (take 10 (sort_Slice X snapshot_less xs)) \<le> 10
       \<and> sorted_wrt desc_Height_Format (take 10 (sort_Slice X snapshot_less xs))"
proof -
  have "sorted_wrt desc_Height_Format (sort_Slice X snapshot_less xs)"
    using assms(2) by (rule sorts_desc)
  then have "sorted_wrt desc_Height_Format (take 10 (sort_Slice X snapshot_less xs))"
    by (rule sorted_wrt_take)
  then show ?thesis
    using assms(1) by (simp add: recentSnapshots_Inr)
qed

text \<open>C9 on an application with twelve snapshots, asked for three: ten come back.\<close>

theorem recentSnapshots_top_ten_witness:
  "ListSnapshotsSync (conn (example_reactor\<lparr>conn := example_conn\<lparr>ListSnapshotsSync := Inr many_snapshots\<rparr>\<rparr>))
     = Inr many_snapshots
   \<and> sorts (sort_Slice example_X) snapshot_less many_snapshots
   \<and> map Hash (take 10 (sort_Slice example_X snapshot_less many_snapshots))
       = [[11], [10], [9], [8], [7], [6], [5], [4], [3], [2]]
   \<and> (case recentSnapshots example_X
             (example_reactor\<lparr>conn := example_conn\<lparr>ListSnapshotsSync := Inr many_snapshots\<rparr>\<rparr>) 3 of
         Inl e \<Rightarrow> False
       | Inr ys \<Rightarrow> length ys = 10 \<and> sorted_wrt desc_Height_Format ys)
   \<and> recentSnapshots example_X
         (example_reactor\<lparr>conn := example_conn\<lparr>ListSnapshotsSync := Inr many_snapshots\<rparr>\<rparr>) 0
       = recentSnapshots example_X
           (example_reactor\<lparr>conn := example_conn\<lparr>ListSnapshotsSync := Inr many_snapshots\<rparr>\<rparr>) 3"
proof -
  have app: "ListSnapshotsSync (conn (example_reactor\<lparr>conn := example_conn\<lparr>ListSnapshotsSync := Inr many_snapshots\<rparr>\<rparr>))
               = Inr many_snapshots"
    by simp
  have srt: "sorts (sort_Slice example_X) snapshot_less many_snapshots"
    by (simp add: example_X_def insertion_sort_sorts)
  have val: "map Hash (take 10 (sort_Slice example_X snapshot_less many_snapshots))
       = [[11], [10], [9], [8], [7], [6], [5], [4], [3], [2]]"
    by (simp add: example_X_def many_snapshots_def upt_rec snapshot_less_def)
  have len: "length (take 10 (sort_Slice example_X snapshot_less many_snapshots)) = 10"
    using arg_cong [OF val, of length] by simp
  show ?thesis
    using recentSnapshots_top_ten [OF app srt, of 3 0] app srt val len by simp
qed

text \<open>
  C10.  For a ChunkRequest on which \<open>LoadSnapshotChunkSync\<close> returns an error, both
  the dispatch loop and \<open>Receive\<close> log the error and send nothing: no ChunkResponse,
  with or without Missing, leaves the node, and the reactor is as before.
\<close>

theorem ChunkRequest_load_error_no_response:
  assumes "LoadSnapshotChunkSync (conn r) h f i = Inl err"
    and "Message envelope = ChunkRequest h f i"
  shows "Start_step X (chunkCh_In envelope) deferred r
           = Some (deferred, r,
                   [LogDebug ''received chunk request'', LogError ''failed to load chunk''])
       \<and> network_sends [LogDebug ''received chunk request'', LogError ''failed to load chunk''] = []
       \<and> (IsRunning r \<and> decodeMsg X msgBytes = Inr (ChunkRequest h f i)
            \<and> validateMsg X (ChunkRequest h f i) = None \<longrightarrow>
          Receive X ChunkChannel src msgBytes r
            = Some (r, [LogDebug ''Received chunk request'', LogError ''Failed to load chunk'']))
       \<and> network_sends [LogDebug ''Received chunk request'', LogError ''Failed to load chunk''] = []"
  using assms
  by (simp add: Start_chunkCh_def Receive_def Receive_ChunkChannel_def
      SnapshotChannel_def ChunkChannel_def)

text \<open>C10 on the concrete node, for a height whose store fails.\<close>

theorem ChunkRequest_load_error_no_response_witness:
  "LoadSnapshotChunkSync (conn example_reactor) 5 1 0 = Inl ''snapshot store unavailable''
   \<and> Message \<lparr>From = ''peerA'', To = [], Broadcast = False, Message = ChunkRequest 5 1 0\<rparr>
       = ChunkRequest 5 1 0
   \<and> IsRunning example_reactor
   \<and> decodeMsg example_X [3] = Inr (ChunkRequest 5 1 0)
   \<and> validateMsg example_X (ChunkRequest 5 1 0) = None
   \<and> Start_step example_X
        (chunkCh_In \<lparr>From = ''peerA'', To = [], Broadcast = False, Message = ChunkRequest 5 1 0\<rparr>)
        0 example_reactor
       = Some (0, example_reactor,
               [LogDebug ''received chunk request'', LogError ''failed to load chunk''])
   \<and> Receive example_X ChunkChannel ''peerA'' [3] example_reactor
       = Some (example_reactor,
               [LogDebug ''Received chunk request'', LogError ''Failed to load chunk''])"
proof -
  have app: "LoadSnapshotChunkSync (conn example_reactor) 5 1 0 = Inl ''snapshot store unavailable''"
    by (simp add: example_reactor_def example_conn_def)
  have msg: "Message \<lparr>From = ''peerA'', To = [], Broadcast = False, Message = ChunkRequest 5 1 0\<rparr>
       = ChunkRequest 5 1 0"
    by simp
  have run: "IsRunning example_reactor"
    by (simp add: example_reactor_def)
  have dec: "decodeMsg example_X [3] = Inr (ChunkRequest 5 1 0)"
    by (simp add: example_X_def example_decodeMsg_def)
  have val: "validateMsg example_X (ChunkRequest 5 1 0) = None"
    by (simp add: example_X_def)
  show ?thesis
    using ChunkRequest_load_error_no_response
        [OF app msg, of example_X 0 "[3]" "''peerA''"]
      app msg run dec val
    by simp
qed

text \<open>
  C5, as stated, fails: a ChunkRequest arriving on the snapshot channel is not one of
  the types that channel's \<open>switch\<close> names, and handling it reports no peer.
\<close>

theorem unknown_message_flags_no_peer_counterexample:
  "flagged_peers
     (acts_of (Start_step example_X
        (snapshotCh_In \<lparr>From = ''peerA'', To = [], Broadcast = False, Message = ChunkRequest 7 2 0\<rparr>)
        0 example_reactor)) = []"
  by (simp add: Start_snapshotCh_def acts_of_def)

text \<open>
  C5, amended.  For every message on the snapshot channel or the chunk channel whose
  type is not one of those the channel's \<open>switch\<close> names, the iteration logs the event
  at error level and does nothing else: no peer is reported, nothing is sent, and the
  reactor is as before.
\<close>

theorem unknown_message_only_logged:
  "(\<not> snapshotCh_recognized (Message envelope) \<longrightarrow>
      Start_step X (snapshotCh_In envelope) deferred r
        = Some (deferred, r, [LogError ''received unknown message: %T'']))
   \<and> (\<not> chunkCh_recognized (Message envelope) \<longrightarrow>
      Start_step X (chunkCh_In envelope) deferred r
        = Some (deferred, r, [LogError ''received unknown message: %T'']))
   \<and> flagged_peers [LogError ''received unknown message: %T''] = []
   \<and> network_sends [LogError ''received unknown message: %T''] = []"
  by (cases "Message envelope") (simp_all add: Start_snapshotCh_def Start_chunkCh_def)

text \<open>C5, amended, on the concrete node for a message of a foreign type.\<close>

theorem unknown_message_only_logged_witness:
  "\<not> snapshotCh_recognized
       (Message \<lparr>From = ''peerB'', To = [], Broadcast = False, Message = OtherMessage ''*ssproto.Message''\<rparr>)
   \<and> \<not> chunkCh_recognized
       (Message \<lparr>From = ''peerB'', To = [], Broadcast = False, Message = OtherMessage ''*ssproto.Message''\<rparr>)
   \<and> Start_step example_X
        (snapshotCh_In \<lparr>From = ''peerB'', To = [], Broadcast = False, Message = OtherMessage ''*ssproto.Message''\<rparr>)
        2 example_reactor
       = Some (2, example_reactor, [LogError ''received unknown message: %T''])
   \<and> Start_step example_X
        (chunkCh_In \<lparr>From = ''peerB'', To = [], Broadcast = False, Message = OtherMessage ''*ssproto.Message''\<rparr>)
        2 example_reactor
       = Some (2, example_reactor, [LogError ''received unknown message: %T''])"
  using unknown_message_only_logged
    [of "\<lparr>From = ''peerB'', To = [], Broadcast = False, Message = OtherMessage ''*ssproto.Message''\<rparr>"
        example_X 2 example_reactor]
  by simp

text \<open>
  C4 (a response received with no session is discarded without changing any state),
  evaluated at a SnapshotsResponse and at a ChunkResponse received by the dispatch
  loop with no session: the message is dropped with a debug line, but the reactor is
  not as before, since the read lock taken for the check is still held when the
  iteration ends.
\<close>

theorem response_without_session_keeps_read_lock:
  "Start_step example_X
     (snapshotCh_In \<lparr>From = ''peerA'', To = [], Broadcast = False,
                     Message = SnapshotsResponse 7 2 4 [3] [9]\<rparr>)
     0 example_reactor
     = Some (1, example_reactor\<lparr>mtx := \<lparr>readers = 1, writer = False\<rparr>\<rparr>,
             [LogDebug ''received unexpected snapshot; no state sync in progress''])
   \<and> Start_step example_X
     (chunkCh_In \<lparr>From = ''peerA'', To = [], Broadcast = False,
                  Message = ChunkResponse 7 2 0 (Some [0]) False\<rparr>)
     0 example_reactor
     = Some (1, example_reactor\<lparr>mtx := \<lparr>readers = 1, writer = False\<rparr>\<rparr>,
             [LogDebug ''received unexpected chunk, no state sync in progress''])
   \<and> example_reactor\<lparr>mtx := \<lparr>readers = 1, writer = False\<rparr>\<rparr> \<noteq> example_reactor"
  by (simp add: Start_snapshotCh_def Start_chunkCh_def RLock_def example_reactor_def)

text \<open>
  C7 (a peer update received while a session is active is surfaced to the session),
  evaluated at a peer update received by the dispatch loop while a session is active:
  the update is logged and the session is not told, whereas \<open>RemovePeer\<close> on the
  same reactor removes the peer from the session.
\<close>

theorem peer_update_not_surfaced:
  "Start_step example_X (peerUpdates_In ''peerA: down'') 0
     (example_reactor\<lparr>syncer := Some [''peerA'', ''peerB'']\<rparr>)
     = Some (0, example_reactor\<lparr>syncer := Some [''peerA'', ''peerB'']\<rparr>, [LogDebug ''peer update''])
   \<and> RemovePeer example_X ''peerA'' (example_reactor\<lparr>syncer := Some [''peerA'', ''peerB'']\<rparr>)
     = Some (example_reactor\<lparr>syncer := Some [''peerB'']\<rparr>)"
  by (simp add: RemovePeer_def RLock_def RUnlock_def example_reactor_def example_X_def)

text \<open>
  C8 (the lock on the session is released before the loop handles the next message
  or sends), evaluated at a run of two iterations: the read lock taken for a
  SnapshotsResponse is still held after its iteration, is held while the next
  iteration sends a ChunkResponse, and a \<open>Sync\<close> called in that state waits at its
  \<open>Lock\<close>.
\<close>

theorem read_lock_held_across_iterations:
  "Start_loop example_X
     [snapshotCh_In \<lparr>From = ''peerA'', To = [], Broadcast = False,
                     Message = SnapshotsResponse 7 2 4 [3] [9]\<rparr>,
      chunkCh_In \<lparr>From = ''peerB'', To = [], Broadcast = False, Message = ChunkRequest 7 2 0\<rparr>]
     0 example_reactor []
     = Some (1, example_reactor\<lparr>mtx := \<lparr>readers = 1, writer = False\<rparr>\<rparr>,
             [LogDebug ''received unexpected snapshot; no state sync in progress'',
              LogDebug ''received chunk request'', LogDebug ''sending chunk'',
              Out chunkCh \<lparr>From = [], To = ''peerB'', Broadcast = False,
                           Message = ChunkResponse 7 2 0 (Some [0]) False\<rparr>])
   \<and> Start_step example_X
       (chunkCh_In \<lparr>From = ''peerB'', To = [], Broadcast = False, Message = ChunkRequest 7 2 0\<rparr>)
       1 (example_reactor\<lparr>mtx := \<lparr>readers = 1, writer = False\<rparr>\<rparr>)
     = Some (1, example_reactor\<lparr>mtx := \<lparr>readers = 1, writer = False\<rparr>\<rparr>,
             [LogDebug ''received chunk request'', LogDebug ''sending chunk'',
              Out chunkCh \<lparr>From = [], To = ''peerB'', Broadcast = False,
                           Message = ChunkResponse 7 2 0 (Some [0]) False\<rparr>])
   \<and> Sync example_X ''provider'' 15000000000
       (example_reactor\<lparr>mtx := \<lparr>readers = 1, writer = False\<rparr>\<rparr>) = None"
  by (simp add: Start_snapshotCh_def Start_chunkCh_def RLock_def Sync_def Lock_def
      example_reactor_def example_conn_def)
end
